theory Spec2Isabelle
  imports Main
begin

section \<open>The QR-code batch generator (generate_qr_codes.py)\<close>

text \<open>
  The program is one function, \<open>generate_qr_codes_from_csv\<close>, that creates the directory
  \<open>qr_codes\<close>, loads a table with \<open>pandas.read_csv\<close>, checks its columns and writes one
  QR-code picture per row. It is embedded as a function on an explicit world (directories,
  files, console) that returns the exception leaving the function, if any, and the new world.

  The three libraries the function calls are its environment:
  \<^item> \<open>pandas.read_csv\<close> is a parameter: for a path it raises or returns a data frame;
  \<^item> the \<open>qrcode\<close> encoder is symbolic: a picture is the record of the \<open>QRCode\<close> object it
    was drawn from and of its two colours. \<open>make(fit=True)\<close> asks the library for the
    smallest symbol version, from the object's version on, that holds the payload; the
    answer (\<open>best_fit\<close>) is a parameter: a version, or the exception the library raises
    (\<open>DataOverflowError\<close> for a payload that no version holds);
  \<^item> \<open>mkdir(exist_ok=True)\<close> raises \<open>FileExistsError\<close> when a file that is no directory has
    the name, and otherwise when the environment says so (\<open>PermissionError\<close>);
  \<^item> \<open>img.save\<close> stores the picture under the path, or raises when the environment says so.

  The environment answers the same call in the same way every time. Strings are lists of
  8-bit characters, read as the code points below 256.
\<close>

subsection \<open>Python values and text\<close>

text \<open>
  A cell of a data frame. \<open>PyNaN\<close> is the float pandas stores for a missing cell; any other
  float is carried by the text that \<open>str\<close> returns for it.
\<close>

datatype pyval = PyStr string | PyInt int | PyBool bool | PyNaN | PyFloat string

definition digit_char :: "nat \<Rightarrow> char" where
  "digit_char d = ''0123456789'' ! d"

function str_nat :: "nat \<Rightarrow> string" where
  "str_nat n = (if n < 10 then [digit_char n] else str_nat (n div 10) @ [digit_char (n mod 10)])"
  by pat_completeness auto
termination
  by (relation "measure id") auto

declare str_nat.simps [simp del]

text \<open>Python's \<open>str\<close> on a cell, which is also what an f-string prints for it.\<close>

fun py_str :: "pyval \<Rightarrow> string" where
  "py_str (PyStr s) = s"
| "py_str (PyInt i) = (if i < 0 then CHR ''-'' # str_nat (nat (- i)) else str_nat (nat i))"
| "py_str (PyBool b) = (if b then ''True'' else ''False'')"
| "py_str PyNaN = ''nan''"
| "py_str (PyFloat r) = r"

text \<open>The characters below 256 for which \<open>str.isspace\<close> holds, which \<open>str.strip()\<close> removes.\<close>

definition isspace :: "char \<Rightarrow> bool" where
  "isspace c \<longleftrightarrow> c \<in> set [CHR 0x09, CHR 0x0A, CHR 0x0B, CHR 0x0C, CHR 0x0D,
     CHR 0x1C, CHR 0x1D, CHR 0x1E, CHR 0x1F, CHR 0x20, CHR 0x85, CHR 0xA0]"

definition strip :: "string \<Rightarrow> string" where
  "strip s = rev (dropWhile isspace (rev (dropWhile isspace s)))"

subsection \<open>Paths (pathlib, POSIX flavour)\<close>

record path =
  root :: string
  parts :: "string list"

fun split_on :: "char \<Rightarrow> string \<Rightarrow> string list" where
  "split_on c [] = [[]]"
| "split_on c (x # xs) =
     (if x = c then [] # split_on c xs
      else (case split_on c xs of [] \<Rightarrow> [[x]] | y # ys \<Rightarrow> (x # y) # ys))"

text \<open>
  \<open>splitroot\<close>: one leading slash or three and more make the root \<open>/\<close>, exactly two make
  the root \<open>//\<close>; the rest is the relative part.
\<close>

definition splitroot :: "string \<Rightarrow> string \<times> string" where
  "splitroot s =
     (case s of
        [] \<Rightarrow> ([], [])
      | c # _ \<Rightarrow>
          if c = CHR ''/'' then
            (let stripped = dropWhile (\<lambda>x. x = CHR ''/'') s
             in if length s - length stripped = 2 then (''//'', stripped) else (''/'', stripped))
          else ([], s))"

text \<open>\<open>Path(s)\<close>: empty components and \<open>.\<close> components are dropped.\<close>

definition Path :: "string \<Rightarrow> path" where
  "Path s =
     (let (r, rel) = splitroot s
      in \<lparr>root = r, parts = filter (\<lambda>x. x \<noteq> [] \<and> x \<noteq> ''.'') (split_on CHR ''/'' rel)\<rparr>)"

text \<open>\<open>p / name\<close>: an absolute \<open>name\<close> replaces \<open>p\<close>, a relative one is appended.\<close>

definition truediv :: "path \<Rightarrow> string \<Rightarrow> path" where
  "truediv p name =
     (let q = Path name
      in if root q \<noteq> [] then q else \<lparr>root = root p, parts = parts p @ parts q\<rparr>)"

fun join_sep :: "string list \<Rightarrow> string" where
  "join_sep [] = []"
| "join_sep [x] = x"
| "join_sep (x # y # ys) = x @ CHR ''/'' # join_sep (y # ys)"

definition path_str :: "path \<Rightarrow> string" where
  "path_str p = (if root p = [] \<and> parts p = [] then ''.'' else root p @ join_sep (parts p))"

subsection \<open>The qrcode library, symbolically\<close>

datatype error_correction_level = ERROR_CORRECT_L | ERROR_CORRECT_M | ERROR_CORRECT_Q | ERROR_CORRECT_H

text \<open>
  A \<open>QRCode\<close> object: the constructor's arguments and the payloads added. \<open>version\<close> is
  the constructor's argument until \<open>make(fit=True)\<close> replaces it by the version that fits.
\<close>

record qrcode =
  version :: nat
  error_correction :: error_correction_level
  box_size :: nat
  border :: nat
  data_list :: "string list"

record image =
  code :: qrcode
  fill_color :: string
  back_color :: string

subsection \<open>Exceptions, data frames, the environment and the world\<close>

text \<open>
  The exception classes the handlers tell apart; \<open>ValueError\<close> and \<open>Exception\<close> carry
  \<open>str(e)\<close>. \<open>Exception\<close> stands for every other class below \<open>Exception\<close>.
\<close>

datatype exn = FileNotFoundError | EmptyDataError | ValueError string | Exception string

text \<open>
  A row is a Series indexed by the column labels; the program reads it only at labels it
  has found in \<open>df.columns\<close>.
\<close>

type_synonym series = "string \<Rightarrow> pyval"

record dataframe =
  columns :: "string list"
  rows :: "series list"

record env =
  read_csv :: "string \<Rightarrow> exn + dataframe"
  mkdir_error :: "string \<Rightarrow> exn option"
  best_fit :: "qrcode \<Rightarrow> exn + nat"
  save_error :: "string \<Rightarrow> exn option"

text \<open>
  The world: the directories and files of the file system, the lines printed, and the log
  of the files saved, in order.
\<close>

record world =
  dirs :: "string set"
  files :: "string \<rightharpoonup> image"
  console :: "string list"
  writes :: "(string \<times> image) list"

definition quote :: char where
  "quote = CHR 0x27"

definition print :: "string \<Rightarrow> world \<Rightarrow> world" where
  "print line w = w\<lparr>console := console w @ [line]\<rparr>"

text \<open>
  \<open>p.mkdir(exist_ok=True)\<close>: raises \<open>FileExistsError\<close> when the name belongs to a file that
  is no directory, raises what the environment says otherwise, and else the directory exists
  afterwards.
\<close>

definition mkdir_exist_ok :: "env \<Rightarrow> path \<Rightarrow> world \<Rightarrow> exn option \<times> world" where
  "mkdir_exist_ok e p w =
     (if path_str p \<in> dom (files w)
      then (Some (Exception (''[Errno 17] File exists: '' @ [quote] @ path_str p @ [quote])), w)
      else (case mkdir_error e (path_str p) of
              Some x \<Rightarrow> (Some x, w)
            | None \<Rightarrow> (None, w\<lparr>dirs := insert (path_str p) (dirs w)\<rparr>)))"

definition QRCode :: "nat \<Rightarrow> error_correction_level \<Rightarrow> nat \<Rightarrow> nat \<Rightarrow> qrcode" where
  "QRCode v ec bs bd =
     \<lparr>version = v, error_correction = ec, box_size = bs, border = bd, data_list = []\<rparr>"

definition add_data :: "string \<Rightarrow> qrcode \<Rightarrow> qrcode" where
  "add_data d qr = qr\<lparr>data_list := data_list qr @ [d]\<rparr>"

text \<open>
  \<open>qr.make(fit=True)\<close>: the library's \<open>best_fit\<close> runs from the object's version and the
  object takes the version it finds.
\<close>

definition make_fit :: "env \<Rightarrow> qrcode \<Rightarrow> exn + qrcode" where
  "make_fit e qr = (case best_fit e qr of Inl x \<Rightarrow> Inl x | Inr v \<Rightarrow> Inr (qr\<lparr>version := v\<rparr>))"

definition make_image :: "string \<Rightarrow> string \<Rightarrow> qrcode \<Rightarrow> image" where
  "make_image fill back qr = \<lparr>code = qr, fill_color = fill, back_color = back\<rparr>"

definition save :: "env \<Rightarrow> image \<Rightarrow> path \<Rightarrow> world \<Rightarrow> exn option \<times> world" where
  "save e img p w =
     (case save_error e (path_str p) of
        Some x \<Rightarrow> (Some x, w)
      | None \<Rightarrow> (None, w\<lparr>files := (files w)(path_str p \<mapsto> img),
                           writes := writes w @ [(path_str p, img)]\<rparr>))"

subsection \<open>The generator\<close>

definition qr_codes_dir :: path where
  "qr_codes_dir = Path ''qr_codes''"

definition progress_line :: "string \<Rightarrow> string \<Rightarrow> pyval \<Rightarrow> path \<Rightarrow> string" where
  "progress_line name srn status filepath =
     ''Generated QR code for '' @ name @ '' (SRN: '' @ srn @ '', Status: '' @ py_str status
       @ '') -> '' @ path_str filepath"

text \<open>The body of the \<open>for\<close> loop, for one row.\<close>

definition process_row :: "env \<Rightarrow> dataframe \<Rightarrow> series \<Rightarrow> world \<Rightarrow> exn option \<times> world" where
  "process_row e df row w =
     (let srn = strip (py_str (row ''SRN''));
          name = strip (py_str (row ''Name''));
          status = (if ''Status'' \<in> set (columns df) then row ''Status'' else PyStr ''Unknown'')
      in case make_fit e (add_data srn (QRCode 1 ERROR_CORRECT_L 10 4)) of
           Inl x \<Rightarrow> (Some x, w)
         | Inr qr \<Rightarrow>
             (let img = make_image ''black'' ''white'' qr;
                  filename = srn @ ''.png'';
                  filepath = truediv qr_codes_dir filename
              in case save e img filepath w of
                   (Some x, w') \<Rightarrow> (Some x, w')
                 | (None, w') \<Rightarrow> (None, print (progress_line name srn status filepath) w')))"

text \<open>\<open>for index, row in df.iterrows()\<close>: the first exception ends the loop.\<close>

fun iterrows_loop :: "env \<Rightarrow> dataframe \<Rightarrow> series list \<Rightarrow> world \<Rightarrow> exn option \<times> world" where
  "iterrows_loop e df [] w = (None, w)"
| "iterrows_loop e df (row # rest) w =
     (case process_row e df row w of
        (Some x, w') \<Rightarrow> (Some x, w')
      | (None, w') \<Rightarrow> iterrows_loop e df rest w')"

definition schema_message :: string where
  "schema_message = ''CSV file must contain '' @ [quote] @ ''Name'' @ [quote] @ '' and ''
     @ [quote] @ ''SRN'' @ [quote] @ '' columns''"

definition found_line :: "dataframe \<Rightarrow> string" where
  "found_line df = ''Found '' @ str_nat (length (rows df)) @ '' records in the CSV file''"

definition banner :: string where
  "banner = CHR 0x0A # ''All QR codes have been generated and saved to the '' @ [quote]
     @ ''qr_codes'' @ [quote] @ '' folder!''"

text \<open>The body of the \<open>try\<close> block.\<close>

definition try_body :: "env \<Rightarrow> string \<Rightarrow> world \<Rightarrow> exn option \<times> world" where
  "try_body e csv_file_path w =
     (case read_csv e csv_file_path of
        Inl x \<Rightarrow> (Some x, w)
      | Inr df \<Rightarrow>
          if ''Name'' \<notin> set (columns df) \<or> ''SRN'' \<notin> set (columns df)
          then (Some (ValueError schema_message), w)
          else (case iterrows_loop e df (rows df) (print (found_line df) w) of
                  (Some x, w') \<Rightarrow> (Some x, w')
                | (None, w') \<Rightarrow> (None, print banner w')))"

text \<open>The line each \<open>except\<close> clause prints.\<close>

fun diagnostic :: "string \<Rightarrow> exn \<Rightarrow> string" where
  "diagnostic csv_file_path FileNotFoundError =
     ''Error: CSV file '' @ [quote] @ csv_file_path @ [quote] @ '' not found!''"
| "diagnostic csv_file_path EmptyDataError = ''Error: The CSV file is empty!''"
| "diagnostic csv_file_path (ValueError m) = ''Error: '' @ m"
| "diagnostic csv_file_path (Exception m) = ''Error: '' @ m"

text \<open>
  The function: the first component of the result is the exception that leaves it. The
  directory is created in front of the \<open>try\<close> block, so what \<open>mkdir\<close> raises leaves the
  function. Every class of \<open>exn\<close> raised inside the block has a handler, and each handler
  prints and returns.
\<close>

definition generate_qr_codes_from_csv :: "env \<Rightarrow> string \<Rightarrow> world \<Rightarrow> exn option \<times> world" where
  "generate_qr_codes_from_csv e csv_file_path w =
     (case mkdir_exist_ok e qr_codes_dir w of
        (Some x, w0) \<Rightarrow> (Some x, w0)
      | (None, w0) \<Rightarrow>
          (case try_body e csv_file_path w0 of
             (None, w') \<Rightarrow> (None, w')
           | (Some FileNotFoundError, w') \<Rightarrow>
               (None, print (diagnostic csv_file_path FileNotFoundError) w')
           | (Some EmptyDataError, w') \<Rightarrow>
               (None, print (diagnostic csv_file_path EmptyDataError) w')
           | (Some (ValueError m), w') \<Rightarrow>
               (None, print (diagnostic csv_file_path (ValueError m)) w')
           | (Some (Exception m), w') \<Rightarrow>
               (None, print (diagnostic csv_file_path (Exception m)) w')))"

text \<open>
  The entry point, and the status the interpreter exits with: 0 unless an exception leaves
  the program.
\<close>

definition main :: "env \<Rightarrow> world \<Rightarrow> exn option \<times> world" where
  "main e w = generate_qr_codes_from_csv e ''paid_list_with_status.csv'' w"

definition exit_status :: "exn option \<Rightarrow> nat" where
  "exit_status r = (case r of None \<Rightarrow> 0 | Some _ \<Rightarrow> 1)"

subsection \<open>Notions used in the statements\<close>

text \<open>The identifier of a row: the text of its SRN cell, trimmed.\<close>

definition srn_of :: "series \<Rightarrow> string" where
  "srn_of row = strip (py_str (row ''SRN''))"

text \<open>The path \<open>qr_codes_dir / f"{srn}.png"\<close>, as text.\<close>

definition target :: "string \<Rightarrow> string" where
  "target srn = path_str (truediv qr_codes_dir (srn @ ''.png''))"

text \<open>The \<open>QRCode\<close> object of a payload, in front of \<open>make\<close>.\<close>

definition qr_for :: "string \<Rightarrow> qrcode" where
  "qr_for srn =
     \<lparr>version = 1, error_correction = ERROR_CORRECT_L, box_size = 10, border = 4,
      data_list = [srn]\<rparr>"

text \<open>The black-on-white picture of a payload in a symbol of version \<open>v\<close>.\<close>

definition picture :: "nat \<Rightarrow> string \<Rightarrow> image" where
  "picture v srn =
     \<lparr>code = \<lparr>version = v, error_correction = ERROR_CORRECT_L, box_size = 10, border = 4,
               data_list = [srn]\<rparr>,
      fill_color = ''black'', back_color = ''white''\<rparr>"

text \<open>The exception the libraries raise while a row is processed, if any.\<close>

definition row_failure :: "env \<Rightarrow> series \<Rightarrow> exn option" where
  "row_failure e row =
     (case best_fit e (qr_for (srn_of row)) of
        Inl x \<Rightarrow> Some x
      | Inr v \<Rightarrow> save_error e (target (srn_of row)))"

text \<open>
  The entry \<open>img.save\<close> makes for a row: the path and the picture, in the version
  \<open>best_fit\<close> answers (the entry is only used for rows where it answers).
\<close>

definition saved_file :: "env \<Rightarrow> series \<Rightarrow> string \<times> image" where
  "saved_file e row =
     (target (srn_of row),
      picture (case best_fit e (qr_for (srn_of row)) of Inr v \<Rightarrow> v | Inl x \<Rightarrow> 1) (srn_of row))"

text \<open>The rows in front of the first row that raises, and what that row raises.\<close>

definition processed :: "env \<Rightarrow> series list \<Rightarrow> series list" where
  "processed e rs = takeWhile (\<lambda>r. row_failure e r = None) rs"

fun first_failure :: "env \<Rightarrow> series list \<Rightarrow> exn option" where
  "first_failure e [] = None"
| "first_failure e (r # rs) =
     (case row_failure e r of Some x \<Rightarrow> Some x | None \<Rightarrow> first_failure e rs)"

text \<open>The progress line of a row.\<close>

definition row_line :: "dataframe \<Rightarrow> series \<Rightarrow> string" where
  "row_line df row =
     progress_line (strip (py_str (row ''Name''))) (srn_of row)
       (if ''Status'' \<in> set (columns df) then row ''Status'' else PyStr ''Unknown'')
       (truediv qr_codes_dir (srn_of row @ ''.png''))"

text \<open>A line is a diagnostic when it starts with \<open>Error: \<close>.\<close>

definition is_diagnostic :: "string \<Rightarrow> bool" where
  "is_diagnostic line \<longleftrightarrow> take 7 line = ''Error: ''"

subsection \<open>Sample inputs\<close>

definition sample_row :: "pyval \<Rightarrow> pyval \<Rightarrow> series" where
  "sample_row name srn =
     (\<lambda>label. if label = ''Name'' then name else if label = ''SRN'' then srn else PyStr ''Paid'')"

text \<open>Four records: the first and the third share an identifier, the fourth has no SRN.\<close>

definition sample_df :: dataframe where
  "sample_df =
     \<lparr>columns = [''Name'', ''SRN'', ''Status''],
      rows = [sample_row (PyStr ''Ann'') (PyStr '' A1 ''), sample_row (PyStr ''Bob'') (PyInt 42),
              sample_row (PyStr ''Cy'') (PyStr ''A1''), sample_row (PyStr ''Dee'') PyNaN]\<rparr>"

text \<open>Two records with two identifiers.\<close>

definition roster_df :: dataframe where
  "roster_df =
     \<lparr>columns = [''SRN'', ''Name''],
      rows = [sample_row (PyStr ''Ann'') (PyStr ''A1''), sample_row (PyStr ''Bob'') (PyInt 42)]\<rparr>"

definition header_only_df :: dataframe where
  "header_only_df = \<lparr>columns = [''Name'', ''SRN'', ''Status''], rows = []\<rparr>"

definition no_srn_df :: dataframe where
  "no_srn_df = \<lparr>columns = [''Name'', ''Status''], rows = [sample_row (PyStr ''Ann'') PyNaN]\<rparr>"

text \<open>Three records; the picture of the second cannot be saved.\<close>

definition broken_df :: dataframe where
  "broken_df =
     \<lparr>columns = [''Name'', ''SRN''],
      rows = [sample_row (PyStr ''Ann'') (PyStr ''A1''), sample_row (PyStr ''Eve'') (PyStr ''x/y''),
              sample_row (PyStr ''Bob'') (PyInt 42)]\<rparr>"

text \<open>Three records whose identifiers are an absolute path, a path with a dot, and a name.\<close>

definition paths_df :: dataframe where
  "paths_df =
     \<lparr>columns = [''Name'', ''SRN''],
      rows = [sample_row (PyStr ''Ann'') (PyStr ''/tmp/x''), sample_row (PyStr ''Bob'') (PyStr ''./c''),
              sample_row (PyStr ''Cy'') (PyStr ''c'')]\<rparr>"

text \<open>One record with an identifier of 40 characters.\<close>

definition long_srn :: string where
  "long_srn = ''AAAAAAAAAAAAAAAAAAAAAAAAAAAAAAAAAAAAAAAA''"

definition long_df :: dataframe where
  "long_df = \<lparr>columns = [''Name'', ''SRN''], rows = [sample_row (PyStr ''Lo'') (PyStr long_srn)]\<rparr>"

text \<open>
  The environment of the samples. \<open>best_fit\<close> answers as the library does for these
  payloads: version 2 for the 40 characters (version 1 at level L holds 25 characters of
  the alphanumeric mode), version 1 for the short ones.
\<close>

definition sample_env :: env where
  "sample_env =
     \<lparr>read_csv = (\<lambda>p. if p = ''paid_list_with_status.csv'' then Inr sample_df
                      else if p = ''roster.csv'' then Inr roster_df
                      else if p = ''header_only.csv'' then Inr header_only_df
                      else if p = ''empty.csv'' then Inl EmptyDataError
                      else if p = ''no_srn.csv'' then Inr no_srn_df
                      else if p = ''broken.csv'' then Inr broken_df
                      else if p = ''paths.csv'' then Inr paths_df
                      else if p = ''long.csv'' then Inr long_df
                      else Inl FileNotFoundError),
      mkdir_error = (\<lambda>p. None),
      best_fit = (\<lambda>qr. if data_list qr = [long_srn] then Inr 2 else Inr 1),
      save_error = (\<lambda>p. if p = ''qr_codes/x/y.png'' then Some FileNotFoundError else None)\<rparr>"

definition empty_world :: world where
  "empty_world = \<lparr>dirs = {}, files = Map.empty, console = [], writes = []\<rparr>"

text \<open>A world where \<open>qr_codes\<close> is the name of a file that is no directory.\<close>

definition blocked_world :: world where
  "blocked_world =
     \<lparr>dirs = {}, files = [''qr_codes'' \<mapsto> picture 1 ''A1''], console = [], writes = []\<rparr>"

section \<open>Properties\<close>

subsection \<open>Paths\<close>

lemma split_on_none: "c \<notin> set s \<Longrightarrow> split_on c s = [s]"
  by (induction s) auto

lemma qr_codes_dir_eq: "qr_codes_dir = \<lparr>root = [], parts = [''qr_codes'']\<rparr>"
  by (simp add: qr_codes_dir_def Path_def splitroot_def)

lemma Path_plain:
  assumes "CHR ''/'' \<notin> set name" "name \<noteq> []" "name \<noteq> ''.''"
  shows "Path name = \<lparr>root = [], parts = [name]\<rparr>"
proof -
  obtain c cs where n: "name = c # cs" using assms(2) by (cases name) auto
  with assms(1) have "c \<noteq> CHR ''/''" by auto
  then have "splitroot name = ([], name)" by (simp add: splitroot_def n)
  then show ?thesis using assms by (simp add: Path_def split_on_none)
qed

lemma target_plain:
  assumes "CHR ''/'' \<notin> set srn"
  shows "target srn = ''qr_codes/'' @ srn @ ''.png''"
proof -
  have "CHR ''/'' \<notin> set (srn @ ''.png'')" using assms by simp
  then have "Path (srn @ ''.png'') = \<lparr>root = [], parts = [srn @ ''.png'']\<rparr>"
    by (rule Path_plain) (cases srn; simp)+
  then show ?thesis by (simp add: target_def truediv_def qr_codes_dir_eq path_str_def)
qed

text \<open>The last component of a split text is the text behind the last separator.\<close>

lemma split_on_not_Nil: "split_on c s \<noteq> []"
  by (induction s) (auto split: list.splits)

lemma split_on_last:
  "s \<noteq> [] \<Longrightarrow> last s \<noteq> c \<Longrightarrow> last (split_on c s) \<noteq> [] \<and> last (last (split_on c s)) = last s"
proof (induction s)
  case Nil
  then show ?case by simp
next
  case (Cons x xs)
  show ?case
  proof (cases "xs = []")
    case True
    then show ?thesis using Cons.prems by simp
  next
    case False
    then have ih: "last (split_on c xs) \<noteq> [] \<and> last (last (split_on c xs)) = last xs"
      using Cons by simp
    obtain y ys where sp: "split_on c xs = y # ys"
      using split_on_not_Nil [of c xs] by (cases "split_on c xs") auto
    show ?thesis
      using ih False sp by (cases ys) (auto)
  qed
qed

lemma join_sep_last:
  "ps \<noteq> [] \<Longrightarrow> last ps \<noteq> [] \<Longrightarrow> join_sep ps \<noteq> [] \<and> last (join_sep ps) = last (last ps)"
  by (induction ps rule: join_sep.induct) auto

lemma last_filter_keep: "xs \<noteq> [] \<Longrightarrow> P (last xs) \<Longrightarrow> filter P xs \<noteq> [] \<and> last (filter P xs) = last xs"
  by (induction xs) (auto split: if_splits)

lemma dropWhile_keeps_last:
  "s \<noteq> [] \<Longrightarrow> \<not> P (last s) \<Longrightarrow> dropWhile P s \<noteq> [] \<and> last (dropWhile P s) = last s"
  by (induction s) (auto split: if_splits)

lemma splitroot_last:
  assumes "s \<noteq> []" "last s \<noteq> CHR ''/''"
  shows "snd (splitroot s) \<noteq> [] \<and> last (snd (splitroot s)) = last s"
proof -
  obtain c cs where s: "s = c # cs" using assms(1) by (cases s) auto
  have d: "dropWhile (\<lambda>x. x = CHR ''/'') s \<noteq> [] \<and> last (dropWhile (\<lambda>x. x = CHR ''/'') s) = last s"
    using assms by (intro dropWhile_keeps_last) auto
  have "snd (splitroot s) = (if c = CHR ''/'' then dropWhile (\<lambda>x. x = CHR ''/'') s else s)"
    unfolding splitroot_def s by (simp add: Let_def)
  then show ?thesis
    using d assms(1) by (cases "c = CHR ''/''") simp_all
qed

lemma Path_last:
  assumes "s \<noteq> []" "last s \<noteq> CHR ''/''" "last s \<noteq> CHR ''.''"
  shows "parts (Path s) \<noteq> [] \<and> last (parts (Path s)) \<noteq> [] \<and> last (last (parts (Path s))) = last s"
proof -
  let ?rel = "snd (splitroot s)"
  have r: "?rel \<noteq> [] \<and> last ?rel = last s" using splitroot_last [OF assms(1,2)] .
  then have l: "last (split_on CHR ''/'' ?rel) \<noteq> [] \<and> last (last (split_on CHR ''/'' ?rel)) = last s"
    using split_on_last [of ?rel "CHR ''/''"] assms(2) by simp
  then have k: "last (split_on CHR ''/'' ?rel) \<noteq> ''.''"
    using assms(3) by auto
  have "filter (\<lambda>x. x \<noteq> [] \<and> x \<noteq> ''.'') (split_on CHR ''/'' ?rel) \<noteq> []
      \<and> last (filter (\<lambda>x. x \<noteq> [] \<and> x \<noteq> ''.'') (split_on CHR ''/'' ?rel)) = last (split_on CHR ''/'' ?rel)"
    using l k by (intro last_filter_keep) (auto simp: split_on_not_Nil)
  then show ?thesis
    using l by (simp add: Path_def split_beta)
qed

lemma target_last: "target srn \<noteq> [] \<and> last (target srn) = CHR ''g''"
proof -
  let ?q = "Path (srn @ ''.png'')"
  have q: "parts ?q \<noteq> [] \<and> last (parts ?q) \<noteq> [] \<and> last (last (parts ?q)) = CHR ''g''"
    using Path_last [of "srn @ ''.png''"] by simp
  let ?p = "truediv qr_codes_dir (srn @ ''.png'')"
  have p: "parts ?p \<noteq> [] \<and> last (parts ?p) = last (parts ?q)"
    using q by (simp add: truediv_def Let_def)
  then have "join_sep (parts ?p) \<noteq> [] \<and> last (join_sep (parts ?p)) = CHR ''g''"
    using q join_sep_last [of "parts ?p"] by simp
  then show ?thesis
    using p by (simp add: target_def path_str_def)
qed

lemma target_not_dir: "target srn \<noteq> ''qr_codes''"
proof
  assume "target srn = ''qr_codes''"
  then have "last (target srn) = CHR ''s''" by simp
  then show False using target_last [of srn] by simp
qed

subsection \<open>Maps and text\<close>


lemma map_add_twice: "(m ++ n) ++ n = m ++ n"
  by (rule ext) (simp add: map_add_def split: option.splits)

lemma strip_nan: "strip ''nan'' = ''nan''"
  by (simp add: strip_def isspace_def)

subsection \<open>The loop\<close>

lemma process_row_eq:
  "process_row e df row w =
     (case row_failure e row of
        Some x \<Rightarrow> (Some x, w)
      | None \<Rightarrow> (None, w\<lparr>files := (files w)(fst (saved_file e row) \<mapsto> snd (saved_file e row)),
                          writes := writes w @ [saved_file e row],
                          console := console w @ [row_line df row]\<rparr>))"
  by (simp add: process_row_def row_failure_def make_fit_def save_def print_def make_image_def
      add_data_def QRCode_def qr_for_def picture_def target_def srn_of_def row_line_def
      saved_file_def Let_def split: option.splits sum.splits)

lemma loop_general:
  "iterrows_loop e df rs w =
     (first_failure e rs,
      w\<lparr>files := files w ++ map_of (rev (map (saved_file e) (processed e rs))),
        writes := writes w @ map (saved_file e) (processed e rs),
        console := console w @ map (row_line df) (processed e rs)\<rparr>)"
proof (induction rs arbitrary: w)
  case Nil
  then show ?case by (simp add: processed_def)
next
  case (Cons r rs)
  show ?case
  proof (cases "row_failure e r")
    case None
    then show ?thesis
      using Cons.IH by (simp add: process_row_eq processed_def map_add_upd_left)
  next
    case (Some x)
    then show ?thesis by (simp add: process_row_eq processed_def)
  qed
qed

lemma processed_all: "\<forall>r\<in>set rs. row_failure e r = None \<Longrightarrow> processed e rs = rs"
  by (simp add: processed_def)

lemma first_failure_none: "\<forall>r\<in>set rs. row_failure e r = None \<Longrightarrow> first_failure e rs = None"
  by (induction rs) auto

lemma processed_split:
  "\<forall>r\<in>set pre. row_failure e r = None \<Longrightarrow> row_failure e r = Some x \<Longrightarrow>
   processed e (pre @ r # post) = pre"
  by (simp add: processed_def takeWhile_tail)

lemma first_failure_split:
  "\<forall>r\<in>set pre. row_failure e r = None \<Longrightarrow> row_failure e r = Some x \<Longrightarrow>
   first_failure e (pre @ r # post) = Some x"
  by (induction pre) auto

lemma processed_prefix:
  assumes "j < length rs" "\<forall>k\<le>j. row_failure e (rs ! k) = None"
  shows "j < length (processed e rs)" and "\<forall>k\<le>j. processed e rs ! k = rs ! k"
proof -
  have "Suc j \<le> length (takeWhile (\<lambda>r. row_failure e r = None) rs)"
    using assms by (intro length_takeWhile_less_P_nth) auto
  then show j: "j < length (processed e rs)" by (simp add: processed_def)
  show "\<forall>k\<le>j. processed e rs ! k = rs ! k"
    using j by (simp add: processed_def takeWhile_nth)
qed


lemma processed_accepted: "r \<in> set (processed e rs) \<Longrightarrow> row_failure e r = None"
  by (auto simp add: processed_def dest: set_takeWhileD)


lemma accepted_fit: "row_failure e r = None \<Longrightarrow> \<exists>v. best_fit e (qr_for (srn_of r)) = Inr v"
  by (auto simp add: row_failure_def split: sum.splits)

subsection \<open>The ways through the function\<close>

text \<open>The directory in front of the block.\<close>

lemma mkdir_ok:
  assumes "fst (mkdir_exist_ok e qr_codes_dir w) = None"
  shows "mkdir_exist_ok e qr_codes_dir w = (None, w\<lparr>dirs := insert ''qr_codes'' (dirs w)\<rparr>)"
  using assms
  by (auto simp add: mkdir_exist_ok_def qr_codes_dir_eq path_str_def split: if_splits option.splits)

lemma mkdir_ok_iff:
  "fst (mkdir_exist_ok e qr_codes_dir w) = None
     \<longleftrightarrow> ''qr_codes'' \<notin> dom (files w) \<and> mkdir_error e ''qr_codes'' = None"
  by (auto simp add: mkdir_exist_ok_def qr_codes_dir_eq path_str_def split: if_splits option.splits)

lemma mkdir_raises:
  assumes "fst (mkdir_exist_ok e qr_codes_dir w) = Some x"
  shows "mkdir_exist_ok e qr_codes_dir w = (Some x, w)"
  using assms
  by (auto simp add: mkdir_exist_ok_def split: if_splits option.splits)

lemma generate_blocked:
  assumes "fst (mkdir_exist_ok e qr_codes_dir w) = Some x"
  shows "generate_qr_codes_from_csv e p w = (Some x, w)"
  by (simp add: generate_qr_codes_from_csv_def mkdir_raises [OF assms])

lemma generate_handler:
  assumes "fst (mkdir_exist_ok e qr_codes_dir w) = None"
  shows "generate_qr_codes_from_csv e p w =
     (None, case try_body e p (w\<lparr>dirs := insert ''qr_codes'' (dirs w)\<rparr>) of
              (None, w') \<Rightarrow> w'
            | (Some x, w') \<Rightarrow> print (diagnostic p x) w')"
  by (simp add: generate_qr_codes_from_csv_def mkdir_ok [OF assms]
      split: prod.splits option.splits exn.splits)

lemma generate_read_error:
  assumes "fst (mkdir_exist_ok e qr_codes_dir w) = None" "read_csv e p = Inl x"
  shows "generate_qr_codes_from_csv e p w =
     (None, w\<lparr>dirs := insert ''qr_codes'' (dirs w), console := console w @ [diagnostic p x]\<rparr>)"
  using assms(2) by (simp add: generate_handler [OF assms(1)] try_body_def print_def)

lemma generate_schema:
  assumes "fst (mkdir_exist_ok e qr_codes_dir w) = None"
    and "read_csv e p = Inr df" "''Name'' \<notin> set (columns df) \<or> ''SRN'' \<notin> set (columns df)"
  shows "generate_qr_codes_from_csv e p w =
     (None, w\<lparr>dirs := insert ''qr_codes'' (dirs w),
               console := console w @ [''Error: '' @ schema_message]\<rparr>)"
  using assms(2,3) by (auto simp add: generate_handler [OF assms(1)] try_body_def print_def)

lemma generate_rows:
  assumes "fst (mkdir_exist_ok e qr_codes_dir w) = None"
    and "read_csv e p = Inr df" "''Name'' \<in> set (columns df)" "''SRN'' \<in> set (columns df)"
  shows "generate_qr_codes_from_csv e p w =
     (None, w\<lparr>dirs := insert ''qr_codes'' (dirs w),
               files := files w ++ map_of (rev (map (saved_file e) (processed e (rows df)))),
               writes := writes w @ map (saved_file e) (processed e (rows df)),
               console := console w @ found_line df # map (row_line df) (processed e (rows df))
                 @ [case first_failure e (rows df) of None \<Rightarrow> banner | Some x \<Rightarrow> diagnostic p x]\<rparr>)"
  using assms(2-4)
  by (simp add: generate_handler [OF assms(1)] try_body_def print_def loop_general
      split: option.splits)

lemma generate_all_rows:
  assumes "fst (mkdir_exist_ok e qr_codes_dir w) = None"
    and "read_csv e p = Inr df" "''Name'' \<in> set (columns df)" "''SRN'' \<in> set (columns df)"
    and "\<forall>row\<in>set (rows df). row_failure e row = None"
  shows "generate_qr_codes_from_csv e p w =
     (None, w\<lparr>dirs := insert ''qr_codes'' (dirs w),
               files := files w ++ map_of (rev (map (saved_file e) (rows df))),
               writes := writes w @ map (saved_file e) (rows df),
               console := console w @ found_line df # map (row_line df) (rows df) @ [banner]\<rparr>)"
  using assms(5)
  by (simp add: generate_rows [OF assms(1-4)] processed_all first_failure_none)

lemma try_body_rows:
  assumes "read_csv e p = Inr df" "''Name'' \<in> set (columns df)" "''SRN'' \<in> set (columns df)"
  shows "fst (try_body e p w) = first_failure e (rows df)"
  using assms by (simp add: try_body_def loop_general split: option.splits)

text \<open>What a run saves does not depend on the world it starts in.\<close>

lemma generate_shape:
  "\<exists>W. (\<forall>x\<in>set W. fst x \<noteq> ''qr_codes'')
     \<and> (\<forall>w. fst (mkdir_exist_ok e qr_codes_dir w) = None \<longrightarrow>
           files (snd (generate_qr_codes_from_csv e p w)) = files w ++ map_of (rev W)
         \<and> dirs (snd (generate_qr_codes_from_csv e p w)) = insert ''qr_codes'' (dirs w)
         \<and> writes (snd (generate_qr_codes_from_csv e p w)) = writes w @ W)"
proof (cases "read_csv e p")
  case (Inl x)
  then have "(\<forall>x\<in>set []. fst x \<noteq> ''qr_codes'')
     \<and> (\<forall>w. fst (mkdir_exist_ok e qr_codes_dir w) = None \<longrightarrow>
           files (snd (generate_qr_codes_from_csv e p w)) = files w ++ map_of (rev [])
         \<and> dirs (snd (generate_qr_codes_from_csv e p w)) = insert ''qr_codes'' (dirs w)
         \<and> writes (snd (generate_qr_codes_from_csv e p w)) = writes w @ [])"
    by (simp add: generate_read_error)
  then show ?thesis by blast
next
  case (Inr df)
  show ?thesis
  proof (cases "''Name'' \<in> set (columns df) \<and> ''SRN'' \<in> set (columns df)")
    case True
    let ?W = "map (saved_file e) (processed e (rows df))"
    have "\<forall>x\<in>set ?W. fst x \<noteq> ''qr_codes''"
      by (auto simp add: saved_file_def target_not_dir)
    moreover have "\<forall>w. fst (mkdir_exist_ok e qr_codes_dir w) = None \<longrightarrow>
           files (snd (generate_qr_codes_from_csv e p w)) = files w ++ map_of (rev ?W)
         \<and> dirs (snd (generate_qr_codes_from_csv e p w)) = insert ''qr_codes'' (dirs w)
         \<and> writes (snd (generate_qr_codes_from_csv e p w)) = writes w @ ?W"
      using Inr True by (simp add: generate_rows)
    ultimately show ?thesis by blast
  next
    case False
    then have "(\<forall>x\<in>set []. fst x \<noteq> ''qr_codes'')
     \<and> (\<forall>w. fst (mkdir_exist_ok e qr_codes_dir w) = None \<longrightarrow>
           files (snd (generate_qr_codes_from_csv e p w)) = files w ++ map_of (rev [])
         \<and> dirs (snd (generate_qr_codes_from_csv e p w)) = insert ''qr_codes'' (dirs w)
         \<and> writes (snd (generate_qr_codes_from_csv e p w)) = writes w @ [])"
      using Inr by (auto simp add: generate_schema)
    then show ?thesis by blast
  qed
qed

subsection \<open>The lines of the console\<close>

lemma diagnostic_is_diagnostic: "is_diagnostic (diagnostic p x)"
  by (cases x) (simp_all add: is_diagnostic_def)

lemma found_line_no_diagnostic: "\<not> is_diagnostic (found_line df)"
  by (simp add: is_diagnostic_def found_line_def)

lemma row_line_no_diagnostic: "\<not> is_diagnostic (row_line df r)"
  by (simp add: is_diagnostic_def row_line_def progress_line_def)

lemma banner_no_diagnostic: "\<not> is_diagnostic banner"
  by (simp add: is_diagnostic_def banner_def)

lemma filter_row_lines: "filter is_diagnostic (map (row_line df) rs) = []"
  by (induction rs) (simp_all add: row_line_no_diagnostic)

subsection \<open>The sample inputs\<close>

lemmas sample_eval = sample_row_def srn_of_def strip_def isspace_def str_nat.simps digit_char_def
  target_def truediv_def Path_def splitroot_def qr_codes_dir_eq path_str_def qr_for_def
  long_srn_def

lemma sample_mkdir: "fst (mkdir_exist_ok sample_env qr_codes_dir empty_world) = None"
  by (simp add: mkdir_ok_iff sample_env_def empty_world_def)

lemma blocked_mkdir:
  "fst (mkdir_exist_ok sample_env qr_codes_dir blocked_world)
     = Some (Exception (''[Errno 17] File exists: '' @ [quote] @ ''qr_codes'' @ [quote]))"
  by (simp add: mkdir_exist_ok_def qr_codes_dir_eq path_str_def blocked_world_def)

lemma sample_rows_accepted: "\<forall>row\<in>set (rows sample_df). row_failure sample_env row = None"
  by (simp add: sample_df_def sample_env_def row_failure_def sample_eval)

lemma sample_rows_accepted_upto:
  "k < length (rows sample_df) \<Longrightarrow> row_failure sample_env (rows sample_df ! k) = None"
  using sample_rows_accepted by simp




lemma long_rows_accepted: "\<forall>row\<in>set (rows long_df). row_failure sample_env row = None"
  by (simp add: long_df_def sample_env_def row_failure_def sample_eval)

lemma broken_rows:
  "rows broken_df = [sample_row (PyStr ''Ann'') (PyStr ''A1'')]
     @ sample_row (PyStr ''Eve'') (PyStr ''x/y'') # [sample_row (PyStr ''Bob'') (PyInt 42)]"
  by (simp add: broken_df_def)

lemma broken_first_accepted:
  "\<forall>r'\<in>set [sample_row (PyStr ''Ann'') (PyStr ''A1'')]. row_failure sample_env r' = None"
  by (simp add: sample_env_def row_failure_def sample_eval)

lemma broken_second_raises:
  "row_failure sample_env (sample_row (PyStr ''Eve'') (PyStr ''x/y'')) = Some FileNotFoundError"
  by (simp add: sample_env_def row_failure_def sample_eval)


lemma long_saved:
  "map (saved_file sample_env) (rows long_df) = [(''qr_codes/'' @ long_srn @ ''.png'', picture 2 long_srn)]"
  by (simp add: long_df_def saved_file_def sample_env_def sample_row_def srn_of_def strip_def
      isspace_def target_plain qr_for_def long_srn_def)

subsection \<open>Claims about the failures in front of the loop\<close>

text \<open>
  C5. When the header of the input lacks the column \<open>Name\<close> or the column \<open>SRN\<close>, the run
  (its directory created) ends with the one diagnostic of the schema check, and no picture
  is written: the check stands in front of the loop.
\<close>

theorem missing_column_aborts:
  assumes "fst (mkdir_exist_ok e qr_codes_dir w) = None"
    and "read_csv e p = Inr df"
    and "''Name'' \<notin> set (columns df) \<or> ''SRN'' \<notin> set (columns df)"
  shows "fst (generate_qr_codes_from_csv e p w) = None
       \<and> console (snd (generate_qr_codes_from_csv e p w))
           = console w @ [''Error: CSV file must contain '' @ [quote] @ ''Name'' @ [quote]
                          @ '' and '' @ [quote] @ ''SRN'' @ [quote] @ '' columns'']
       \<and> files (snd (generate_qr_codes_from_csv e p w)) = files w
       \<and> writes (snd (generate_qr_codes_from_csv e p w)) = writes w"
  by (simp add: generate_schema [OF assms] schema_message_def)

theorem missing_column_aborts_witness:
  "fst (mkdir_exist_ok sample_env qr_codes_dir empty_world) = None
   \<and> read_csv sample_env ''no_srn.csv'' = Inr no_srn_df
   \<and> ''SRN'' \<notin> set (columns no_srn_df)
   \<and> rows no_srn_df \<noteq> []
   \<and> console (snd (generate_qr_codes_from_csv sample_env ''no_srn.csv'' empty_world))
       = [''Error: CSV file must contain '' @ [quote] @ ''Name'' @ [quote]
                          @ '' and '' @ [quote] @ ''SRN'' @ [quote] @ '' columns'']
   \<and> writes (snd (generate_qr_codes_from_csv sample_env ''no_srn.csv'' empty_world)) = []
   \<and> files (snd (generate_qr_codes_from_csv sample_env ''no_srn.csv'' empty_world)) = Map.empty"
proof -
  have h1: "read_csv sample_env ''no_srn.csv'' = Inr no_srn_df"
    by (simp add: sample_env_def)
  have h2: "''Name'' \<notin> set (columns no_srn_df) \<or> ''SRN'' \<notin> set (columns no_srn_df)"
    by (simp add: no_srn_df_def)
  show ?thesis
    using sample_mkdir h1 missing_column_aborts [OF sample_mkdir h1 h2]
    by (simp add: empty_world_def no_srn_df_def)
qed

text \<open>
  C6. When the input path does not exist, the run (its directory created) ends with the
  file-not-found diagnostic, and the directory \<open>qr_codes\<close> exists all the same: it is created
  in front of the load.
\<close>

theorem missing_file_reported_directory_created:
  assumes "fst (mkdir_exist_ok e qr_codes_dir w) = None"
    and "read_csv e p = Inl FileNotFoundError"
  shows "fst (generate_qr_codes_from_csv e p w) = None
       \<and> console (snd (generate_qr_codes_from_csv e p w))
           = console w @ [''Error: CSV file '' @ [quote] @ p @ [quote] @ '' not found!'']
       \<and> ''qr_codes'' \<in> dirs (snd (generate_qr_codes_from_csv e p w))
       \<and> files (snd (generate_qr_codes_from_csv e p w)) = files w
       \<and> writes (snd (generate_qr_codes_from_csv e p w)) = writes w"
  by (simp add: generate_read_error [OF assms])

theorem missing_file_reported_directory_created_witness:
  "fst (mkdir_exist_ok sample_env qr_codes_dir empty_world) = None
   \<and> read_csv sample_env ''nowhere.csv'' = Inl FileNotFoundError
   \<and> console (snd (generate_qr_codes_from_csv sample_env ''nowhere.csv'' empty_world))
       = [''Error: CSV file '' @ [quote] @ ''nowhere.csv'' @ [quote] @ '' not found!'']
   \<and> ''qr_codes'' \<in> dirs (snd (generate_qr_codes_from_csv sample_env ''nowhere.csv'' empty_world))
   \<and> dirs empty_world = {}
   \<and> files (snd (generate_qr_codes_from_csv sample_env ''nowhere.csv'' empty_world)) = Map.empty"
proof -
  have h: "read_csv sample_env ''nowhere.csv'' = Inl FileNotFoundError"
    by (simp add: sample_env_def)
  show ?thesis
    using sample_mkdir h missing_file_reported_directory_created [OF sample_mkdir h]
    by (simp add: empty_world_def)
qed

text \<open>
  C4. The claim that an input with a header and no data row ends with the empty-input
  diagnostic does not hold: \<open>read_csv\<close> returns a frame without rows for it (it raises
  \<open>EmptyDataError\<close> only for a file with no columns to parse), the loop has nothing to do,
  and the run prints the count and the closing line.
\<close>

theorem header_only_input_is_no_error:
  "read_csv sample_env ''header_only.csv'' = Inr header_only_df
   \<and> columns header_only_df = [''Name'', ''SRN'', ''Status'']
   \<and> rows header_only_df = []
   \<and> console (snd (generate_qr_codes_from_csv sample_env ''header_only.csv'' empty_world))
       = [''Found 0 records in the CSV file'', banner]
   \<and> ''Error: The CSV file is empty!''
       \<notin> set (console (snd (generate_qr_codes_from_csv sample_env ''header_only.csv'' empty_world)))
   \<and> filter is_diagnostic
        (console (snd (generate_qr_codes_from_csv sample_env ''header_only.csv'' empty_world))) = []"
proof -
  have h1: "read_csv sample_env ''header_only.csv'' = Inr header_only_df"
    by (simp add: sample_env_def)
  have h2: "''Name'' \<in> set (columns header_only_df)" and h3: "''SRN'' \<in> set (columns header_only_df)"
    by (simp_all add: header_only_df_def)
  have c: "console (snd (generate_qr_codes_from_csv sample_env ''header_only.csv'' empty_world))
       = [''Found 0 records in the CSV file'', banner]"
    using generate_rows [OF sample_mkdir h1 h2 h3]
    by (simp add: header_only_df_def processed_def found_line_def str_nat.simps digit_char_def
        empty_world_def)
  show ?thesis
    unfolding c using h1
    by (simp add: header_only_df_def banner_def is_diagnostic_def)
qed

text \<open>
  C4, as amended. When \<open>read_csv\<close> raises \<open>EmptyDataError\<close>, the run (its directory created)
  ends with the one line \<open>Error: The CSV file is empty!\<close> and writes no picture. When it
  returns a frame with the two columns and no rows, the run prints the count 0 and the
  closing line, no diagnostic, and writes no picture.
\<close>

theorem empty_file_reported_header_only_completes:
  "(fst (mkdir_exist_ok e qr_codes_dir w) = None \<and> read_csv e p = Inl EmptyDataError \<longrightarrow>
      fst (generate_qr_codes_from_csv e p w) = None
      \<and> console (snd (generate_qr_codes_from_csv e p w)) = console w @ [''Error: The CSV file is empty!'']
      \<and> files (snd (generate_qr_codes_from_csv e p w)) = files w
      \<and> writes (snd (generate_qr_codes_from_csv e p w)) = writes w)
   \<and> (fst (mkdir_exist_ok e qr_codes_dir w) = None
        \<and> read_csv e p = Inr df \<and> ''Name'' \<in> set (columns df) \<and> ''SRN'' \<in> set (columns df)
        \<and> rows df = [] \<longrightarrow>
      fst (generate_qr_codes_from_csv e p w) = None
      \<and> console (snd (generate_qr_codes_from_csv e p w))
          = console w @ [''Found 0 records in the CSV file'', banner]
      \<and> files (snd (generate_qr_codes_from_csv e p w)) = files w
      \<and> writes (snd (generate_qr_codes_from_csv e p w)) = writes w)"
proof (intro conjI impI)
  assume a: "fst (mkdir_exist_ok e qr_codes_dir w) = None \<and> read_csv e p = Inl EmptyDataError"
  then have g: "generate_qr_codes_from_csv e p w =
     (None, w\<lparr>dirs := insert ''qr_codes'' (dirs w),
               console := console w @ [diagnostic p EmptyDataError]\<rparr>)"
    by (simp add: generate_read_error)
  show "fst (generate_qr_codes_from_csv e p w) = None" by (simp add: g)
  show "console (snd (generate_qr_codes_from_csv e p w)) = console w @ [''Error: The CSV file is empty!'']"
    by (simp add: g)
  show "files (snd (generate_qr_codes_from_csv e p w)) = files w" by (simp add: g)
  show "writes (snd (generate_qr_codes_from_csv e p w)) = writes w" by (simp add: g)
next
  assume a: "fst (mkdir_exist_ok e qr_codes_dir w) = None
        \<and> read_csv e p = Inr df \<and> ''Name'' \<in> set (columns df) \<and> ''SRN'' \<in> set (columns df)
        \<and> rows df = []"
  then have g: "generate_qr_codes_from_csv e p w =
     (None, w\<lparr>dirs := insert ''qr_codes'' (dirs w),
               files := files w ++ map_of (rev (map (saved_file e) (processed e (rows df)))),
               writes := writes w @ map (saved_file e) (processed e (rows df)),
               console := console w @ found_line df # map (row_line df) (processed e (rows df))
                 @ [case first_failure e (rows df) of None \<Rightarrow> banner | Some x \<Rightarrow> diagnostic p x]\<rparr>)"
    by (simp add: generate_rows)
  have r: "rows df = []" using a by simp
  show "fst (generate_qr_codes_from_csv e p w) = None" by (simp add: g)
  show "console (snd (generate_qr_codes_from_csv e p w))
          = console w @ [''Found 0 records in the CSV file'', banner]"
    by (simp add: g r processed_def found_line_def str_nat.simps digit_char_def)
  show "files (snd (generate_qr_codes_from_csv e p w)) = files w"
    by (simp add: g r processed_def)
  show "writes (snd (generate_qr_codes_from_csv e p w)) = writes w"
    by (simp add: g r processed_def)
qed

theorem empty_file_reported_header_only_completes_witness:
  "fst (mkdir_exist_ok sample_env qr_codes_dir empty_world) = None
   \<and> read_csv sample_env ''empty.csv'' = Inl EmptyDataError
   \<and> console (snd (generate_qr_codes_from_csv sample_env ''empty.csv'' empty_world))
       = [''Error: The CSV file is empty!'']
   \<and> writes (snd (generate_qr_codes_from_csv sample_env ''empty.csv'' empty_world)) = []
   \<and> read_csv sample_env ''header_only.csv'' = Inr header_only_df
   \<and> ''Name'' \<in> set (columns header_only_df) \<and> ''SRN'' \<in> set (columns header_only_df)
   \<and> rows header_only_df = []
   \<and> console (snd (generate_qr_codes_from_csv sample_env ''header_only.csv'' empty_world))
       = [''Found 0 records in the CSV file'', banner]
   \<and> writes (snd (generate_qr_codes_from_csv sample_env ''header_only.csv'' empty_world)) = []"
proof -
  have h1: "read_csv sample_env ''empty.csv'' = Inl EmptyDataError"
    by (simp add: sample_env_def)
  have k1: "read_csv sample_env ''header_only.csv'' = Inr header_only_df"
    by (simp add: sample_env_def)
  have k2: "''Name'' \<in> set (columns header_only_df)" and k3: "''SRN'' \<in> set (columns header_only_df)"
    and k4: "rows header_only_df = []"
    by (simp_all add: header_only_df_def)
  have w0: "console empty_world = []" "writes empty_world = []" by (simp_all add: empty_world_def)
  show ?thesis
    using sample_mkdir h1 k1 k2 k3 k4
      empty_file_reported_header_only_completes
        [where e = sample_env and p = "''empty.csv''" and w = empty_world]
      empty_file_reported_header_only_completes
        [where e = sample_env and p = "''header_only.csv''" and w = empty_world
           and df = header_only_df]
    by (simp add: w0)
qed

subsection \<open>Claims about the records a run processes\<close>




text \<open>
  C3. The claim that every picture is a symbol of version 1 does not hold: the code calls
  \<open>make(fit=True)\<close>, and for an identifier of 40 characters the library fits version 2.
\<close>

theorem long_identifier_gets_a_larger_symbol:
  "read_csv sample_env ''long.csv'' = Inr long_df
   \<and> map srn_of (rows long_df) = [long_srn]
   \<and> length long_srn = 40
   \<and> best_fit sample_env (qr_for long_srn) = Inr 2
   \<and> writes (snd (generate_qr_codes_from_csv sample_env ''long.csv'' empty_world))
       = [(''qr_codes/'' @ long_srn @ ''.png'', picture 2 long_srn)]
   \<and> version (code (picture 2 long_srn)) = 2
   \<and> version (code (picture 2 long_srn)) \<noteq> 1"
proof -
  have h1: "read_csv sample_env ''long.csv'' = Inr long_df"
    by (simp add: sample_env_def)
  have h2: "''Name'' \<in> set (columns long_df)" and h3: "''SRN'' \<in> set (columns long_df)"
    by (simp_all add: long_df_def)
  note g = generate_all_rows [OF sample_mkdir h1 h2 h3 long_rows_accepted]
  have c1: "writes (snd (generate_qr_codes_from_csv sample_env ''long.csv'' empty_world))
       = [(''qr_codes/'' @ long_srn @ ''.png'', picture 2 long_srn)]"
    by (simp add: g long_saved) (simp add: empty_world_def)
  have c2: "map srn_of (rows long_df) = [long_srn]"
    by (simp add: long_df_def sample_row_def srn_of_def strip_def isspace_def long_srn_def)
  have c3: "length long_srn = 40" by (simp add: long_srn_def)
  have c4: "best_fit sample_env (qr_for long_srn) = Inr 2"
    by (simp add: sample_env_def qr_for_def)
  show ?thesis
    using h1 c1 c2 c3 c4 by (simp add: picture_def)
qed

text \<open>
  C3, as amended. Every picture a run saves is drawn from a \<open>QRCode\<close> object constructed with
  the same arguments (version 1, error correction L, box size 10, border 4) and is black on
  white. Version 1 is where the fit starts: the version of the symbol is the one the library
  fits to the payload of the object so constructed.
\<close>

theorem fixed_configuration:
  "\<forall>(path, img) \<in> set (drop (length (writes w)) (writes (snd (generate_qr_codes_from_csv e p w)))).
     error_correction (code img) = ERROR_CORRECT_L
     \<and> box_size (code img) = 10 \<and> border (code img) = 4
     \<and> fill_color img = ''black'' \<and> back_color img = ''white''
     \<and> best_fit e ((code img)\<lparr>version := 1\<rparr>) = Inr (version (code img))"
proof (cases "fst (mkdir_exist_ok e qr_codes_dir w)")
  case (Some x)
  then show ?thesis by (simp add: generate_blocked)
next
  case None
  show ?thesis
  proof (cases "read_csv e p")
    case (Inl x)
    then show ?thesis by (simp add: generate_read_error [OF None])
  next
    case (Inr df)
    show ?thesis
    proof (cases "''Name'' \<in> set (columns df) \<and> ''SRN'' \<in> set (columns df)")
      case True
      have "error_correction (code (snd (saved_file e r))) = ERROR_CORRECT_L
          \<and> box_size (code (snd (saved_file e r))) = 10 \<and> border (code (snd (saved_file e r))) = 4
          \<and> fill_color (snd (saved_file e r)) = ''black''
          \<and> back_color (snd (saved_file e r)) = ''white''
          \<and> best_fit e ((code (snd (saved_file e r)))\<lparr>version := 1\<rparr>)
              = Inr (version (code (snd (saved_file e r))))"
        if mem: "r \<in> set (processed e (rows df))" for r
      proof -
        obtain v where "best_fit e (qr_for (srn_of r)) = Inr v"
          using accepted_fit [OF processed_accepted [OF mem]] by blast
        then show ?thesis by (simp add: saved_file_def picture_def qr_for_def)
      qed
      then have all: "\<forall>x\<in>set (map (saved_file e) (processed e (rows df))).
          error_correction (code (snd x)) = ERROR_CORRECT_L
          \<and> box_size (code (snd x)) = 10 \<and> border (code (snd x)) = 4
          \<and> fill_color (snd x) = ''black'' \<and> back_color (snd x) = ''white''
          \<and> best_fit e ((code (snd x))\<lparr>version := 1\<rparr>) = Inr (version (code (snd x)))"
        by simp
      have eq: "drop (length (writes w)) (writes (snd (generate_qr_codes_from_csv e p w)))
          = map (saved_file e) (processed e (rows df))"
        using Inr True by (simp add: generate_rows [OF None])
      show ?thesis
        unfolding eq
      proof (rule ballI, clarify)
        fix path img
        assume "(path, img) \<in> set (map (saved_file e) (processed e (rows df)))"
        with all have "error_correction (code (snd (path, img))) = ERROR_CORRECT_L
          \<and> box_size (code (snd (path, img))) = 10 \<and> border (code (snd (path, img))) = 4
          \<and> fill_color (snd (path, img)) = ''black'' \<and> back_color (snd (path, img)) = ''white''
          \<and> best_fit e ((code (snd (path, img)))\<lparr>version := 1\<rparr>)
              = Inr (version (code (snd (path, img))))"
          by (rule bspec)
        then show "error_correction (code img) = ERROR_CORRECT_L
          \<and> box_size (code img) = 10 \<and> border (code img) = 4
          \<and> fill_color img = ''black'' \<and> back_color img = ''white''
          \<and> best_fit e ((code img)\<lparr>version := 1\<rparr>) = Inr (version (code img))"
          by simp
      qed
    next
      case False
      then show ?thesis
        using Inr by (auto simp add: generate_schema [OF None])
    qed
  qed
qed

theorem fixed_configuration_witness:
  "(''qr_codes/'' @ long_srn @ ''.png'', picture 2 long_srn)
     \<in> set (drop (length (writes empty_world))
          (writes (snd (generate_qr_codes_from_csv sample_env ''long.csv'' empty_world))))
   \<and> error_correction (code (picture 2 long_srn)) = ERROR_CORRECT_L
   \<and> box_size (code (picture 2 long_srn)) = 10 \<and> border (code (picture 2 long_srn)) = 4
   \<and> fill_color (picture 2 long_srn) = ''black'' \<and> back_color (picture 2 long_srn) = ''white''
   \<and> best_fit sample_env ((code (picture 2 long_srn))\<lparr>version := 1\<rparr>)
       = Inr (version (code (picture 2 long_srn)))
   \<and> version (code (picture 2 long_srn)) = 2"
proof -
  have h1: "read_csv sample_env ''long.csv'' = Inr long_df"
    by (simp add: sample_env_def)
  have h2: "''Name'' \<in> set (columns long_df)" and h3: "''SRN'' \<in> set (columns long_df)"
    by (simp_all add: long_df_def)
  have m: "(''qr_codes/'' @ long_srn @ ''.png'', picture 2 long_srn)
     \<in> set (drop (length (writes empty_world))
          (writes (snd (generate_qr_codes_from_csv sample_env ''long.csv'' empty_world))))"
    by (simp add: generate_all_rows [OF sample_mkdir h1 h2 h3 long_rows_accepted] long_saved)
  have v: "version (code (picture 2 long_srn)) = 2" by (simp add: picture_def)
  show ?thesis
    using m v fixed_configuration [where w = empty_world and e = sample_env and p = "''long.csv''"]
    by fastforce
qed



text \<open>
  C10. A record whose SRN cell is the missing value \<open>NaN\<close> is not processed under the empty
  identifier: the identifier is the text \<open>nan\<close>, which is the payload of the picture, and the
  picture is saved as \<open>qr_codes/nan.png\<close>.
\<close>

theorem missing_srn_becomes_nan:
  assumes "fst (mkdir_exist_ok e qr_codes_dir w) = None"
    and "read_csv e p = Inr df" "''Name'' \<in> set (columns df)" "''SRN'' \<in> set (columns df)"
    and "i < length (rows df)" "(rows df ! i) ''SRN'' = PyNaN"
    and "\<forall>k\<le>i. row_failure e (rows df ! k) = None"
  shows "strip (py_str ((rows df ! i) ''SRN'')) = ''nan''
       \<and> fst (drop (length (writes w)) (writes (snd (generate_qr_codes_from_csv e p w))) ! i)
           = ''qr_codes/nan.png''
       \<and> data_list (code (snd (drop (length (writes w))
            (writes (snd (generate_qr_codes_from_csv e p w))) ! i))) = [''nan'']"
proof -
  have s: "srn_of (rows df ! i) = ''nan''"
    using assms(6) by (simp add: srn_of_def strip_nan)
  have t: "target ''nan'' = ''qr_codes/nan.png''"
    by (simp add: target_plain)
  have "i < length (processed e (rows df))" and "processed e (rows df) ! i = rows df ! i"
    using processed_prefix [OF assms(5) assms(7)] by simp_all
  then have "drop (length (writes w)) (writes (snd (generate_qr_codes_from_csv e p w))) ! i
      = saved_file e (rows df ! i)"
    by (simp add: generate_rows [OF assms(1-4)])
  then show ?thesis
    using assms(6) by (simp add: saved_file_def s t picture_def strip_nan)
qed

theorem missing_srn_becomes_nan_witness:
  "fst (mkdir_exist_ok sample_env qr_codes_dir empty_world) = None
   \<and> read_csv sample_env ''paid_list_with_status.csv'' = Inr sample_df
   \<and> ''Name'' \<in> set (columns sample_df) \<and> ''SRN'' \<in> set (columns sample_df)
   \<and> 3 < length (rows sample_df)
   \<and> (rows sample_df ! 3) ''SRN'' = PyNaN
   \<and> list_all (\<lambda>k. row_failure sample_env (rows sample_df ! k) = None) [0, 1, 2, 3]
   \<and> fst (drop (length (writes empty_world))
        (writes (snd (generate_qr_codes_from_csv sample_env ''paid_list_with_status.csv'' empty_world))) ! 3)
       = ''qr_codes/nan.png''
   \<and> data_list (code (snd (drop (length (writes empty_world))
        (writes (snd (generate_qr_codes_from_csv sample_env ''paid_list_with_status.csv'' empty_world))) ! 3)))
       = [''nan'']"
proof -
  have h1: "read_csv sample_env ''paid_list_with_status.csv'' = Inr sample_df"
    by (simp add: sample_env_def)
  have h2: "''Name'' \<in> set (columns sample_df)" and h3: "''SRN'' \<in> set (columns sample_df)"
    by (simp_all add: sample_df_def)
  have h5: "3 < length (rows sample_df)" and n: "length (rows sample_df) = 4"
    by (simp_all add: sample_df_def)
  have h6: "(rows sample_df ! 3) ''SRN'' = PyNaN" by (simp add: sample_df_def sample_row_def)
  have h7: "\<forall>k\<le>3. row_failure sample_env (rows sample_df ! k) = None"
    using sample_rows_accepted_upto n by simp
  have la: "list_all (\<lambda>k. row_failure sample_env (rows sample_df ! k) = None) [0, 1, 2, 3]"
    using h7 by simp
  show ?thesis
    using sample_mkdir h1 h2 h3 la h5 h6
      missing_srn_becomes_nan [OF sample_mkdir h1 h2 h3 h5 h6 h7]
    by blast
qed

subsection \<open>Claims about two runs\<close>

text \<open>
  C7. A second run on the same input, in the same environment, leaves the files and the
  directories as the first run left them, and saves the same pictures under the same paths
  in the same order: names and contents are those of the first run.
\<close>

theorem second_run_changes_nothing:
  "files (snd (generate_qr_codes_from_csv e p (snd (generate_qr_codes_from_csv e p w))))
     = files (snd (generate_qr_codes_from_csv e p w))
   \<and> dirs (snd (generate_qr_codes_from_csv e p (snd (generate_qr_codes_from_csv e p w))))
     = dirs (snd (generate_qr_codes_from_csv e p w))
   \<and> drop (length (writes (snd (generate_qr_codes_from_csv e p w))))
        (writes (snd (generate_qr_codes_from_csv e p (snd (generate_qr_codes_from_csv e p w)))))
     = drop (length (writes w)) (writes (snd (generate_qr_codes_from_csv e p w)))"
proof (cases "fst (mkdir_exist_ok e qr_codes_dir w)")
  case (Some x)
  then show ?thesis by (simp add: generate_blocked)
next
  case None
  obtain W where k: "\<forall>x\<in>set W. fst x \<noteq> ''qr_codes''"
    and W: "\<And>w. fst (mkdir_exist_ok e qr_codes_dir w) = None \<Longrightarrow>
           files (snd (generate_qr_codes_from_csv e p w)) = files w ++ map_of (rev W)
         \<and> dirs (snd (generate_qr_codes_from_csv e p w)) = insert ''qr_codes'' (dirs w)
         \<and> writes (snd (generate_qr_codes_from_csv e p w)) = writes w @ W"
    using generate_shape [of e p] by blast
  let ?w1 = "snd (generate_qr_codes_from_csv e p w)"
  have "''qr_codes'' \<notin> dom (files w)" and me: "mkdir_error e ''qr_codes'' = None"
    using None by (simp_all add: mkdir_ok_iff)
  moreover have "''qr_codes'' \<notin> dom (map_of (rev W))"
    using k by (auto simp add: dom_map_of_conv_image_fst)
  ultimately have "''qr_codes'' \<notin> dom (files ?w1)"
    using W [OF None] by auto
  then have ok1: "fst (mkdir_exist_ok e qr_codes_dir ?w1) = None"
    using me by (simp add: mkdir_ok_iff)
  show ?thesis
    using W [OF None] W [OF ok1] by (simp add: map_add_twice)
qed

subsection \<open>Claims about the handlers\<close>

text \<open>
  C9. The claim that every failure ends in one diagnostic line and a normal exit does not
  hold: the directory is created in front of the \<open>try\<close> block, and when \<open>qr_codes\<close> is the
  name of a file that is no directory, \<open>mkdir\<close> raises, no handler is around it, nothing is
  printed and the exception leaves the program.
\<close>

theorem blocked_directory_is_not_reported:
  "files blocked_world ''qr_codes'' = Some (picture 1 ''A1'')
   \<and> fst (generate_qr_codes_from_csv sample_env ''paid_list_with_status.csv'' blocked_world)
       = Some (Exception (''[Errno 17] File exists: '' @ [quote] @ ''qr_codes'' @ [quote]))
   \<and> console (snd (generate_qr_codes_from_csv sample_env ''paid_list_with_status.csv'' blocked_world))
       = []
   \<and> exit_status (fst (main sample_env blocked_world)) = 1"
proof -
  note g = generate_blocked [OF blocked_mkdir, of "''paid_list_with_status.csv''"]
  have "console blocked_world = []" "files blocked_world ''qr_codes'' = Some (picture 1 ''A1'')"
    by (simp_all add: blocked_world_def)
  then show ?thesis
    by (simp add: g main_def exit_status_def)
qed

text \<open>
  C9, as amended. Whatever is raised inside the \<open>try\<close> block (by the loader, by the column
  check, or by the encoder or the save of some record) is handled by the clauses around the
  whole block and nowhere else: the function returns, the program exits with status 0
  whatever the kind, and the run prints exactly one diagnostic line, for that exception, as
  its last line. A failure at a record ends the loop: the records in front of it are saved
  and reported, the records behind it are not touched. What the creation of the directory
  raises, in front of the block, is not handled: it leaves the function with nothing printed
  and nothing saved, and the program exits with status 1.
\<close>

theorem failures_reported_once_at_top_level:
  "(fst (mkdir_exist_ok e qr_codes_dir w) = Some z \<longrightarrow>
        generate_qr_codes_from_csv e p w = (Some z, w))
   \<and> exit_status (fst (main e w))
       = (case fst (mkdir_exist_ok e qr_codes_dir w) of None \<Rightarrow> 0 | Some z \<Rightarrow> 1)
   \<and> snd (main e w) = snd (generate_qr_codes_from_csv e ''paid_list_with_status.csv'' w)
   \<and> (fst (mkdir_exist_ok e qr_codes_dir w) = None \<longrightarrow>
        fst (generate_qr_codes_from_csv e p w) = None
        \<and> filter is_diagnostic
            (drop (length (console w)) (console (snd (generate_qr_codes_from_csv e p w))))
           = (case fst (try_body e p (snd (mkdir_exist_ok e qr_codes_dir w))) of
                None \<Rightarrow> [] | Some x \<Rightarrow> [diagnostic p x]))
   \<and> (fst (mkdir_exist_ok e qr_codes_dir w) = None \<and> read_csv e p = Inl x \<longrightarrow>
        drop (length (console w)) (console (snd (generate_qr_codes_from_csv e p w))) = [diagnostic p x]
        \<and> writes (snd (generate_qr_codes_from_csv e p w)) = writes w)
   \<and> (fst (mkdir_exist_ok e qr_codes_dir w) = None
        \<and> read_csv e p = Inr df \<and> (''Name'' \<notin> set (columns df) \<or> ''SRN'' \<notin> set (columns df)) \<longrightarrow>
        drop (length (console w)) (console (snd (generate_qr_codes_from_csv e p w)))
          = [diagnostic p (ValueError schema_message)]
        \<and> writes (snd (generate_qr_codes_from_csv e p w)) = writes w)
   \<and> (fst (mkdir_exist_ok e qr_codes_dir w) = None
        \<and> read_csv e p = Inr df \<and> ''Name'' \<in> set (columns df) \<and> ''SRN'' \<in> set (columns df)
        \<and> rows df = pre @ r # post \<and> (\<forall>r'\<in>set pre. row_failure e r' = None)
        \<and> row_failure e r = Some y \<longrightarrow>
        drop (length (console w)) (console (snd (generate_qr_codes_from_csv e p w)))
          = found_line df # map (row_line df) pre @ [diagnostic p y]
        \<and> drop (length (writes w)) (writes (snd (generate_qr_codes_from_csv e p w)))
          = map (saved_file e) pre)"
proof -
  have c0: "generate_qr_codes_from_csv e p w = (Some z, w)"
    if "fst (mkdir_exist_ok e qr_codes_dir w) = Some z"
    using that by (rule generate_blocked)
  have c2: "exit_status (fst (main e w))
       = (case fst (mkdir_exist_ok e qr_codes_dir w) of None \<Rightarrow> 0 | Some z \<Rightarrow> 1)"
  proof (cases "fst (mkdir_exist_ok e qr_codes_dir w)")
    case None
    then show ?thesis by (simp add: main_def generate_handler exit_status_def)
  next
    case (Some a)
    then show ?thesis by (simp add: main_def generate_blocked exit_status_def)
  qed
  have c2': "snd (main e w) = snd (generate_qr_codes_from_csv e ''paid_list_with_status.csv'' w)"
    by (simp add: main_def)
  have c3: "fst (generate_qr_codes_from_csv e p w) = None
        \<and> filter is_diagnostic
            (drop (length (console w)) (console (snd (generate_qr_codes_from_csv e p w))))
           = (case fst (try_body e p (snd (mkdir_exist_ok e qr_codes_dir w))) of
                None \<Rightarrow> [] | Some x \<Rightarrow> [diagnostic p x])"
    if mk: "fst (mkdir_exist_ok e qr_codes_dir w) = None"
  proof -
    have c1: "fst (generate_qr_codes_from_csv e p w) = None"
      by (simp add: generate_handler [OF mk])
    have "filter is_diagnostic
            (drop (length (console w)) (console (snd (generate_qr_codes_from_csv e p w))))
           = (case fst (try_body e p (snd (mkdir_exist_ok e qr_codes_dir w))) of
                None \<Rightarrow> [] | Some x \<Rightarrow> [diagnostic p x])"
    proof (cases "read_csv e p")
      case (Inl x)
      then show ?thesis
        by (simp add: generate_read_error [OF mk] try_body_def diagnostic_is_diagnostic)
    next
      case (Inr df)
      show ?thesis
      proof (cases "''Name'' \<in> set (columns df) \<and> ''SRN'' \<in> set (columns df)")
        case True
        then show ?thesis
          using Inr
          by (simp add: generate_rows [OF mk] try_body_rows found_line_no_diagnostic
              filter_row_lines banner_no_diagnostic diagnostic_is_diagnostic split: option.splits)
      next
        case False
        then have "fst (try_body e p (snd (mkdir_exist_ok e qr_codes_dir w)))
            = Some (ValueError schema_message)"
          using Inr by (auto simp add: try_body_def)
        moreover have "is_diagnostic (''Error: '' @ schema_message)"
          by (simp add: is_diagnostic_def)
        ultimately show ?thesis
          using Inr False by (auto simp add: generate_schema [OF mk])
      qed
    qed
    with c1 show ?thesis by blast
  qed
  have c4: "drop (length (console w)) (console (snd (generate_qr_codes_from_csv e p w))) = [diagnostic p x]
        \<and> writes (snd (generate_qr_codes_from_csv e p w)) = writes w"
    if "fst (mkdir_exist_ok e qr_codes_dir w) = None \<and> read_csv e p = Inl x"
    using that by (simp add: generate_read_error)
  have c5: "drop (length (console w)) (console (snd (generate_qr_codes_from_csv e p w)))
          = [diagnostic p (ValueError schema_message)]
        \<and> writes (snd (generate_qr_codes_from_csv e p w)) = writes w"
    if "fst (mkdir_exist_ok e qr_codes_dir w) = None
        \<and> read_csv e p = Inr df \<and> (''Name'' \<notin> set (columns df) \<or> ''SRN'' \<notin> set (columns df))"
    using that by (auto simp add: generate_schema)
  have c6: "drop (length (console w)) (console (snd (generate_qr_codes_from_csv e p w)))
          = found_line df # map (row_line df) pre @ [diagnostic p y]
        \<and> drop (length (writes w)) (writes (snd (generate_qr_codes_from_csv e p w)))
          = map (saved_file e) pre"
    if a: "fst (mkdir_exist_ok e qr_codes_dir w) = None
        \<and> read_csv e p = Inr df \<and> ''Name'' \<in> set (columns df) \<and> ''SRN'' \<in> set (columns df)
        \<and> rows df = pre @ r # post \<and> (\<forall>r'\<in>set pre. row_failure e r' = None)
        \<and> row_failure e r = Some y"
  proof -
    have pr: "processed e (pre @ r # post) = pre"
      using a by (simp add: processed_split)
    have ff: "first_failure e (pre @ r # post) = Some y"
      using a by (simp add: first_failure_split)
    show ?thesis
      using a by (simp add: generate_rows pr ff)
  qed
  from c0 c2 c2' c3 c4 c5 c6 show ?thesis by blast
qed

theorem failures_reported_once_at_top_level_witness:
  "fst (mkdir_exist_ok sample_env qr_codes_dir blocked_world)
     = Some (Exception (''[Errno 17] File exists: '' @ [quote] @ ''qr_codes'' @ [quote]))
   \<and> generate_qr_codes_from_csv sample_env ''roster.csv'' blocked_world
       = (Some (Exception (''[Errno 17] File exists: '' @ [quote] @ ''qr_codes'' @ [quote])),
          blocked_world)
   \<and> exit_status (fst (main sample_env blocked_world)) = 1
   \<and> fst (mkdir_exist_ok sample_env qr_codes_dir empty_world) = None
   \<and> exit_status (fst (main sample_env empty_world)) = 0
   \<and> read_csv sample_env ''nowhere.csv'' = Inl FileNotFoundError
   \<and> console (snd (generate_qr_codes_from_csv sample_env ''nowhere.csv'' empty_world))
       = [''Error: CSV file '' @ [quote] @ ''nowhere.csv'' @ [quote] @ '' not found!'']
   \<and> read_csv sample_env ''no_srn.csv'' = Inr no_srn_df
   \<and> ''SRN'' \<notin> set (columns no_srn_df)
   \<and> console (snd (generate_qr_codes_from_csv sample_env ''no_srn.csv'' empty_world))
       = [''Error: '' @ schema_message]
   \<and> read_csv sample_env ''broken.csv'' = Inr broken_df
   \<and> ''Name'' \<in> set (columns broken_df) \<and> ''SRN'' \<in> set (columns broken_df)
   \<and> rows broken_df = [sample_row (PyStr ''Ann'') (PyStr ''A1'')]
        @ sample_row (PyStr ''Eve'') (PyStr ''x/y'') # [sample_row (PyStr ''Bob'') (PyInt 42)]
   \<and> list_all (\<lambda>r'. row_failure sample_env r' = None) [sample_row (PyStr ''Ann'') (PyStr ''A1'')]
   \<and> row_failure sample_env (sample_row (PyStr ''Eve'') (PyStr ''x/y'')) = Some FileNotFoundError
   \<and> console (snd (generate_qr_codes_from_csv sample_env ''broken.csv'' empty_world))
       = [''Found 3 records in the CSV file'',
          ''Generated QR code for Ann (SRN: A1, Status: Unknown) -> qr_codes/A1.png'',
          ''Error: CSV file '' @ [quote] @ ''broken.csv'' @ [quote] @ '' not found!'']
   \<and> writes (snd (generate_qr_codes_from_csv sample_env ''broken.csv'' empty_world))
       = [(''qr_codes/A1.png'', picture 1 ''A1'')]
   \<and> fst (generate_qr_codes_from_csv sample_env ''broken.csv'' empty_world) = None"
proof -
  have w0: "console empty_world = []" "writes empty_world = []" by (simp_all add: empty_world_def)
  have b1: "generate_qr_codes_from_csv sample_env ''roster.csv'' blocked_world
       = (Some (Exception (''[Errno 17] File exists: '' @ [quote] @ ''qr_codes'' @ [quote])),
          blocked_world)"
    using blocked_mkdir failures_reported_once_at_top_level
      [where e = sample_env and p = "''roster.csv''" and w = blocked_world
         and z = "Exception (''[Errno 17] File exists: '' @ [quote] @ ''qr_codes'' @ [quote])"]
    by blast
  have b2: "exit_status (fst (main sample_env blocked_world)) = 1"
    using blocked_mkdir failures_reported_once_at_top_level
      [where e = sample_env and w = blocked_world]
    by simp
  have b3: "exit_status (fst (main sample_env empty_world)) = 0"
    using sample_mkdir failures_reported_once_at_top_level
      [where e = sample_env and w = empty_world]
    by simp
  have a1: "read_csv sample_env ''nowhere.csv'' = Inl FileNotFoundError"
    by (simp add: sample_env_def)
  have c1: "console (snd (generate_qr_codes_from_csv sample_env ''nowhere.csv'' empty_world))
       = [''Error: CSV file '' @ [quote] @ ''nowhere.csv'' @ [quote] @ '' not found!'']"
    using sample_mkdir a1 failures_reported_once_at_top_level
      [where e = sample_env and p = "''nowhere.csv''" and w = empty_world and x = FileNotFoundError]
    by (simp add: w0)
  have a2: "read_csv sample_env ''no_srn.csv'' = Inr no_srn_df"
    by (simp add: sample_env_def)
  have b4: "''SRN'' \<notin> set (columns no_srn_df)" by (simp add: no_srn_df_def)
  have c2: "console (snd (generate_qr_codes_from_csv sample_env ''no_srn.csv'' empty_world))
       = [''Error: '' @ schema_message]"
    using sample_mkdir a2 b4 failures_reported_once_at_top_level
      [where e = sample_env and p = "''no_srn.csv''" and w = empty_world and df = no_srn_df]
    by (simp add: w0)
  have a3: "read_csv sample_env ''broken.csv'' = Inr broken_df"
    by (simp add: sample_env_def)
  have b5: "''Name'' \<in> set (columns broken_df)" "''SRN'' \<in> set (columns broken_df)"
    by (simp_all add: broken_df_def)
  have lc: "list_all (\<lambda>r'. row_failure sample_env r' = None) [sample_row (PyStr ''Ann'') (PyStr ''A1'')]"
    using broken_first_accepted by (simp add: list_all_iff)
  have l1: "found_line broken_df = ''Found 3 records in the CSV file''"
    by (simp add: found_line_def broken_df_def str_nat.simps digit_char_def)
  have l2: "row_line broken_df (sample_row (PyStr ''Ann'') (PyStr ''A1''))
      = ''Generated QR code for Ann (SRN: A1, Status: Unknown) -> qr_codes/A1.png''"
    by (simp add: row_line_def progress_line_def broken_df_def sample_eval)
  have l3: "saved_file sample_env (sample_row (PyStr ''Ann'') (PyStr ''A1''))
      = (''qr_codes/A1.png'', picture 1 ''A1'')"
    by (simp add: saved_file_def sample_env_def sample_eval)
  have "fst (generate_qr_codes_from_csv sample_env ''broken.csv'' empty_world) = None
      \<and> drop (length (console empty_world))
          (console (snd (generate_qr_codes_from_csv sample_env ''broken.csv'' empty_world)))
        = found_line broken_df # map (row_line broken_df) [sample_row (PyStr ''Ann'') (PyStr ''A1'')]
            @ [diagnostic ''broken.csv'' FileNotFoundError]
      \<and> drop (length (writes empty_world))
          (writes (snd (generate_qr_codes_from_csv sample_env ''broken.csv'' empty_world)))
        = map (saved_file sample_env) [sample_row (PyStr ''Ann'') (PyStr ''A1'')]"
    using sample_mkdir a3 b5 broken_rows broken_first_accepted broken_second_raises
      failures_reported_once_at_top_level
      [where e = sample_env and p = "''broken.csv''" and w = empty_world and df = broken_df
         and pre = "[sample_row (PyStr ''Ann'') (PyStr ''A1'')]"
         and r = "sample_row (PyStr ''Eve'') (PyStr ''x/y'')"
         and post = "[sample_row (PyStr ''Bob'') (PyInt 42)]" and y = FileNotFoundError]
    by blast
  then have c3: "console (snd (generate_qr_codes_from_csv sample_env ''broken.csv'' empty_world))
       = [''Found 3 records in the CSV file'',
          ''Generated QR code for Ann (SRN: A1, Status: Unknown) -> qr_codes/A1.png'',
          ''Error: CSV file '' @ [quote] @ ''broken.csv'' @ [quote] @ '' not found!'']
     \<and> writes (snd (generate_qr_codes_from_csv sample_env ''broken.csv'' empty_world))
       = [(''qr_codes/A1.png'', picture 1 ''A1'')]
     \<and> fst (generate_qr_codes_from_csv sample_env ''broken.csv'' empty_world) = None"
    by (simp add: w0 l1 l2 l3)
  show ?thesis
    using blocked_mkdir b1 b2 sample_mkdir b3 a1 c1 a2 b4 c2 a3 b5 broken_rows lc
      broken_second_raises c3
    by blast
qed

end
